theory Spec2Isabelle
  imports Main
begin

section \<open>Guest query limit: the \<open>useQueryLimit\<close> hook\<close>

text \<open>
  The hook keeps one number, \<open>queryCount\<close>, in React state and mirrors it into the browser's
  local storage under a fixed key. JavaScript numbers are modelled as \<open>int\<close>: the counter only
  holds integers, and every operation on it is exact below \<open>2 ^ 53\<close>.
\<close>

definition QUERY_LIMIT :: int where
  "QUERY_LIMIT = 20"

definition STORAGE_KEY :: string where
  "STORAGE_KEY = ''nyayantar_query_count''"

subsection \<open>The browser's local storage\<close>

text \<open>
  \<open>localStorage\<close> is a string-to-string store whose accesses may throw: every access when
  storage is disabled (\<open>denied\<close>), and \<open>setItem\<close> when the quota is used up (\<open>full\<close>).
  The hook wraps each access in \<open>try/catch\<close>, so both branches are part of the model.
\<close>

datatype storage_error = SecurityError | QuotaExceededError

record local_storage =
  entries :: "string \<rightharpoonup> string"
  denied :: bool
  full :: bool

definition getItem :: "local_storage \<Rightarrow> string \<Rightarrow> storage_error + string option" where
  "getItem ls k = (if denied ls then Inl SecurityError else Inr (entries ls k))"

definition setItem :: "local_storage \<Rightarrow> string \<Rightarrow> string \<Rightarrow> storage_error + local_storage" where
  "setItem ls k v =
     (if denied ls then Inl SecurityError
      else if full ls then Inl QuotaExceededError
      else Inr (ls\<lparr>entries := (entries ls)(k \<mapsto> v)\<rparr>))"

definition removeItem :: "local_storage \<Rightarrow> string \<Rightarrow> storage_error + local_storage" where
  "removeItem ls k =
     (if denied ls then Inl SecurityError
      else Inr (ls\<lparr>entries := (entries ls)(k := None)\<rparr>))"

subsection \<open>Numbers and strings: \<open>toString\<close> and \<open>parseInt(_, 10)\<close>\<close>

definition digit_char :: "nat \<Rightarrow> char" where
  "digit_char d = ''0123456789'' ! d"

fun string_of_nat :: "nat \<Rightarrow> string" where
  "string_of_nat n =
     (if n < 10 then [digit_char n]
      else string_of_nat (n div 10) @ [digit_char (n mod 10)])"

declare string_of_nat.simps [simp del]

definition toString :: "int \<Rightarrow> string" where
  "toString n =
     (if n < 0 then CHR ''-'' # string_of_nat (nat (- n)) else string_of_nat (nat n))"

definition is_digit :: "char \<Rightarrow> bool" where
  "is_digit c = (48 \<le> (of_char c :: nat) \<and> (of_char c :: nat) \<le> 57)"

text \<open>White space that \<open>parseInt\<close> skips, among the code units below 256.\<close>

definition is_ws :: "char \<Rightarrow> bool" where
  "is_ws c = ((of_char c :: nat) \<in> {9, 10, 11, 12, 13, 32, 160})"

definition digits_value :: "string \<Rightarrow> nat" where
  "digits_value ds = foldl (\<lambda>acc c. 10 * acc + ((of_char c :: nat) - 48)) 0 ds"

text \<open>
  \<open>parseInt(s, 10)\<close>: skip leading white space, read an optional sign, then the longest run
  of decimal digits; anything after it is ignored. With no digit the result is \<open>NaN\<close>,
  modelled as \<open>None\<close>.
\<close>

definition parseInt :: "string \<Rightarrow> int option" where
  "parseInt s =
     (let t = dropWhile is_ws s;
          neg = (case t of [] \<Rightarrow> False | c # _ \<Rightarrow> c = CHR ''-'');
          u = (case t of [] \<Rightarrow> t
               | c # r \<Rightarrow> if c = CHR ''-'' \<or> c = CHR ''+'' then r else t);
          ds = takeWhile is_digit u
      in if ds = [] then None
         else Some (if neg then - int (digits_value ds) else int (digits_value ds)))"

subsection \<open>Hook state, effects and callbacks\<close>

text \<open>
  \<open>queryCount\<close> is the React state, \<open>storage\<close> the browser store the hook talks to.
  \<open>incrementCalls\<close> and \<open>resetCalls\<close> are not in the source: they count how often each
  callback has run, so that "called exactly once" can be stated.
\<close>

record hook =
  queryCount :: int
  storage :: local_storage
  incrementCalls :: nat
  resetCalls :: nat

text \<open>First effect, run once on mount: load the stored count if it parses and is not negative.\<close>

definition init_effect :: "hook \<Rightarrow> hook" where
  "init_effect h =
     (case getItem (storage h) STORAGE_KEY of
        Inl err \<Rightarrow> h
      | Inr None \<Rightarrow> h
      | Inr (Some stored) \<Rightarrow>
          if stored = [] then h
          else (case parseInt stored of
                  None \<Rightarrow> h
                | Some count \<Rightarrow> if 0 \<le> count then h\<lparr>queryCount := count\<rparr> else h))"

text \<open>
  Second effect, with dependency \<open>[queryCount]\<close>: write the count of the render it belongs to.
  The rendered count is a parameter, because on mount it is still the initial \<open>0\<close> while the
  first effect's update is only queued.
\<close>

definition persist_effect :: "int \<Rightarrow> hook \<Rightarrow> hook" where
  "persist_effect rendered h =
     (case setItem (storage h) STORAGE_KEY (toString rendered) of
        Inl err \<Rightarrow> h
      | Inr ls \<Rightarrow> h\<lparr>storage := ls\<rparr>)"

text \<open>
  React re-renders after a state change; the second effect runs again exactly when
  \<open>queryCount\<close> differs from the value of the previous render.
\<close>

definition rerender :: "int \<Rightarrow> hook \<Rightarrow> hook" where
  "rerender prev h = (if queryCount h \<noteq> prev then persist_effect (queryCount h) h else h)"

definition useQueryLimit_mount :: "local_storage \<Rightarrow> hook" where
  "useQueryLimit_mount ls =
     (let h0 = \<lparr>queryCount = 0, storage = ls, incrementCalls = 0, resetCalls = 0\<rparr>;
          h1 = init_effect h0;
          h2 = persist_effect 0 h1
      in rerender 0 h2)"

definition incrementCount :: "hook \<Rightarrow> hook" where
  "incrementCount h =
     h\<lparr>queryCount := queryCount h + 1, incrementCalls := incrementCalls h + 1\<rparr>"

definition resetCount :: "hook \<Rightarrow> hook" where
  "resetCount h =
     (let h' = h\<lparr>queryCount := 0, resetCalls := resetCalls h + 1\<rparr>
      in case removeItem (storage h') STORAGE_KEY of
           Inl err \<Rightarrow> h'
         | Inr ls \<Rightarrow> h'\<lparr>storage := ls\<rparr>)"

text \<open>A callback run from an event or effect, followed by the re-render it causes.\<close>

definition dispatch :: "(hook \<Rightarrow> hook) \<Rightarrow> hook \<Rightarrow> hook" where
  "dispatch f h = rerender (queryCount h) (f h)"

definition remainingQueries :: "hook \<Rightarrow> int" where
  "remainingQueries h = max 0 (QUERY_LIMIT - queryCount h)"

definition hasExceededLimit :: "hook \<Rightarrow> bool" where
  "hasExceededLimit h = (queryCount h \<ge> QUERY_LIMIT)"

definition canMakeQuery :: "hook \<Rightarrow> bool" where
  "canMakeQuery h = (queryCount h < QUERY_LIMIT)"

text \<open>A healthy store with no entry at all.\<close>

definition empty_storage :: local_storage where
  "empty_storage = \<lparr>entries = Map.empty, denied = False, full = False\<rparr>"

section \<open>\<open>QueryLimitProvider\<close>: reset on authentication\<close>

text \<open>
  The provider's effect has dependency \<open>[isAuthenticated]\<close>: it runs on mount and whenever
  the flag differs from the previous render (\<open>prev = None\<close> stands for the mount), and it
  calls \<open>resetCount\<close> when the flag is set.
\<close>

definition provider_effect :: "bool \<Rightarrow> hook \<Rightarrow> hook" where
  "provider_effect isAuth h = (if isAuth then dispatch resetCount h else h)"

definition QueryLimitProvider :: "bool option \<Rightarrow> bool \<Rightarrow> hook \<Rightarrow> hook" where
  "QueryLimitProvider prev isAuth h =
     (if prev = Some isAuth then h else provider_effect isAuth h)"

section \<open>The chat page: limit-gated submission\<close>

text \<open>
  \<open>limit\<close> is the query-limit context, \<open>showSignupDialog\<close> the page's own state.
  \<open>transportCalls\<close> counts the calls of \<open>useChat\<close>'s \<open>handleSubmit\<close> (the chat transport),
  \<open>preventedDefaults\<close> the calls of \<open>e.preventDefault()\<close>; \<open>streamed\<close> collects the
  chunks \<open>useChat\<close> has received; \<open>toasts\<close>, \<open>alerts\<close> and \<open>nav\<close> log the calls of
  \<open>toast\<close>, \<open>alert\<close> and \<open>router.push\<close>.
\<close>

record chat_page =
  limit :: hook
  showSignupDialog :: bool
  transportCalls :: nat
  preventedDefaults :: nat
  streamed :: "string list"
  toasts :: "string list"
  alerts :: "string list"
  nav :: "string list"

definition handleChatSubmit :: "bool \<Rightarrow> chat_page \<Rightarrow> chat_page" where
  "handleChatSubmit isAuth p =
     (let p1 = p\<lparr>preventedDefaults := preventedDefaults p + 1\<rparr>
      in if \<not> isAuth \<and> \<not> canMakeQuery (limit p1)
         then p1\<lparr>showSignupDialog := True\<rparr>
         else p1\<lparr>transportCalls := transportCalls p1 + 1\<rparr>)"

text \<open>The props the page passes to \<open>SignupPromptDialog\<close>: \<open>open\<close> and \<open>queryCount\<close>.\<close>

definition SignupPromptDialog_props :: "chat_page \<Rightarrow> bool \<times> int" where
  "SignupPromptDialog_props p = (showSignupDialog p, queryCount (limit p))"

definition onFinish :: "bool \<Rightarrow> chat_page \<Rightarrow> chat_page" where
  "onFinish isAuth p =
     (if \<not> isAuth then p\<lparr>limit := dispatch incrementCount (limit p)\<rparr> else p)"

text \<open>
  The value handed to \<open>onError\<close>: something that is not an \<open>Error\<close>, or an \<open>Error\<close> with its
  message and what \<open>JSON.parse\<close> makes of it (\<open>None\<close> when parsing or reading a field throws).
\<close>

record error_response =
  detail :: "string option"
  errors :: "string list option"
  message :: "string option"
  error :: "string option"

datatype chat_error = NotAnError | ErrorObject string "error_response option"

definition truthy :: "string option \<Rightarrow> bool" where
  "truthy v = (case v of None \<Rightarrow> False | Some s \<Rightarrow> s \<noteq> [])"

fun join :: "string list \<Rightarrow> string" where
  "join [] = []"
| "join [x] = x"
| "join (x # y # ys) = x @ '', '' @ join (y # ys)"

text \<open>\<open>Inl\<close>: the handler rethrows its argument.\<close>

definition onError :: "chat_error \<Rightarrow> chat_page \<Rightarrow> chat_error + chat_page" where
  "onError err p =
     (case err of
        NotAnError \<Rightarrow> Inl err
      | ErrorObject msg parsed \<Rightarrow>
          (case parsed of
             None \<Rightarrow> Inr (p\<lparr>toasts := toasts p @ [''Error parsing response: '' @ msg]\<rparr>)
           | Some r \<Rightarrow>
               if detail r = Some ''Not authenticated''
               then Inr (p\<lparr>alerts := alerts p @ [''Session has expired. Please login again.''],
                            nav := nav p @ [''/signin'']\<rparr>)
               else Inr (p\<lparr>toasts := toasts p @
                 [if truthy (detail r) then ''Error: '' @ the (detail r)
                  else if errors r \<noteq> None then ''Validation Errors: '' @ join (the (errors r))
                  else if truthy (message r) then ''Message: '' @ the (message r)
                  else if truthy (error r) then ''Error: '' @ the (error r)
                  else ''Unknown error format: '' @ msg]\<rparr>)))"

text \<open>
  What \<open>useChat\<close> does with one exchange, seen from the page: chunks extend the streamed
  message and call nothing of the page; the end of the stream calls \<open>onFinish\<close> once; a
  failure calls \<open>onError\<close>.
\<close>

datatype stream_event = Chunk string | Finished | Failed chat_error

definition deliver :: "bool \<Rightarrow> chat_page \<Rightarrow> stream_event \<Rightarrow> chat_page" where
  "deliver isAuth p ev =
     (case ev of
        Chunk c \<Rightarrow> p\<lparr>streamed := streamed p @ [c]\<rparr>
      | Finished \<Rightarrow> onFinish isAuth p
      | Failed err \<Rightarrow> (case onError err p of Inl e \<Rightarrow> p | Inr p' \<Rightarrow> p'))"

definition exchange :: "bool \<Rightarrow> stream_event list \<Rightarrow> chat_page \<Rightarrow> chat_page" where
  "exchange isAuth evs p = foldl (deliver isAuth) p evs"

definition new_page :: "hook \<Rightarrow> chat_page" where
  "new_page h = \<lparr>limit = h, showSignupDialog = False, transportCalls = 0,
     preventedDefaults = 0, streamed = [], toasts = [], alerts = [], nav = []\<rparr>"

section \<open>The authentication provider\<close>

record session =
  isAuthenticated :: bool
  email :: "string option"
  firstName :: "string option"
  lastName :: "string option"
  role :: "string option"
  isAdmin :: bool
  accessToken :: "string option"
  refreshToken :: "string option"

datatype http_call = PostRefresh string | GetMe string

text \<open>
  \<open>session\<close> is the provider's React state, \<open>cookies\<close> the cookie jar, \<open>router_pushes\<close>
  the log of \<open>router.push\<close>. \<open>refreshCalls\<close> counts the calls of \<open>refreshAccessToken\<close>,
  \<open>logoutCalls\<close> those of \<open>logout\<close>, and \<open>requests\<close> logs the HTTP requests really sent.
\<close>

record auth_world =
  session :: session
  cookies :: "string \<rightharpoonup> string"
  router_pushes :: "string list"
  refreshCalls :: nat
  logoutCalls :: nat
  requests :: "http_call list"

text \<open>
  What the code takes from outside: \<open>jwtDecode\<close> (throws, or gives a payload whose \<open>exp\<close>
  may be missing), the clock \<open>Date.now()\<close> in milliseconds, the answers of the two
  endpoints, and the current path. An error answer carries \<open>error.response?.status\<close>.
  \<open>me_api\<close> takes the number of the attempt (0, then 1 for the retry) and the bearer token.
\<close>

datatype decoded = DecodeError | JwtPayload "int option"

datatype refresh_response = RefreshOk string string | RefreshFailed "nat option"

datatype me_response = MeOk "string option" | MeFailed "nat option"

record env =
  jwtDecode :: "string \<Rightarrow> decoded"
  now :: int
  refresh_api :: "string \<Rightarrow> refresh_response"
  me_api :: "nat \<Rightarrow> string \<Rightarrow> me_response"
  pathname :: string

definition authRoutes :: "string list" where
  "authRoutes = [''/signin'', ''/signup'', ''/resetPassword'', ''/verifiedEmail'']"

definition protectedRoutes :: "string list" where
  "protectedRoutes = [''/chat'', ''/profile'']"

definition no_session :: session where
  "no_session = \<lparr>isAuthenticated = False, email = None, firstName = None, lastName = None,
     role = None, isAdmin = False, accessToken = None, refreshToken = None\<rparr>"

definition logout :: "auth_world \<Rightarrow> auth_world" where
  "logout w =
     w\<lparr>cookies := (cookies w)(''accessToken'' := None, ''refreshToken'' := None,
          ''email'' := None, ''firstName'' := None, ''lastName'' := None),
       session := no_session,
       router_pushes := router_pushes w @ [''/signin''],
       logoutCalls := logoutCalls w + 1\<rparr>"

definition clearAuthAndRedirect :: "auth_world \<Rightarrow> auth_world" where
  "clearAuthAndRedirect w = logout w"

definition unauthorized :: "nat option \<Rightarrow> bool" where
  "unauthorized status = (status = Some 401 \<or> status = Some 403)"

text \<open>
  \<open>refreshAccessToken\<close> reads \<open>refreshToken\<close> from the closure of the render that created
  it, so the token is a parameter \<open>rt\<close>; the result is the function's return value
  (\<open>None\<close> for \<open>null\<close>) and the world after its updates.
\<close>

definition refreshAccessToken ::
  "env \<Rightarrow> string option \<Rightarrow> auth_world \<Rightarrow> string option \<times> auth_world" where
  "refreshAccessToken e rt w =
     (let w0 = w\<lparr>refreshCalls := refreshCalls w + 1\<rparr>
      in if \<not> truthy rt then (None, w0)
         else
           (let w1 = w0\<lparr>requests := requests w0 @ [PostRefresh (the rt)]\<rparr>
            in case refresh_api e (the rt) of
                 RefreshOk access_token refresh_token \<Rightarrow>
                   (Some access_token,
                    w1\<lparr>session := (session w1)\<lparr>accessToken := Some access_token,
                                                 refreshToken := Some refresh_token\<rparr>,
                       cookies := (cookies w1)(''accessToken'' \<mapsto> access_token,
                                               ''refreshToken'' \<mapsto> refresh_token)\<rparr>)
               | RefreshFailed status \<Rightarrow>
                   (None, if unauthorized status then logout w1 else w1)))"

subsection \<open>The request interceptor\<close>

record request_config =
  url :: string
  headers :: "string \<rightharpoonup> string"

datatype intercepted = Proceed request_config | Cancel string

text \<open>
  \<open>decodedToken.exp && decodedToken.exp < currentTime\<close> with
  \<open>currentTime = Date.now() / 1000\<close>: a missing \<open>exp\<close> and the number \<open>0\<close> are both falsy.
  \<open>exp\<close> is in whole seconds and the clock in whole milliseconds, so
  \<open>exp < Date.now() / 1000\<close> is \<open>exp * 1000 < Date.now()\<close>.
\<close>

definition expired :: "env \<Rightarrow> int option \<Rightarrow> bool" where
  "expired e ex = (case ex of None \<Rightarrow> False | Some t \<Rightarrow> t \<noteq> 0 \<and> t * 1000 < now e)"

definition bearer :: "string \<Rightarrow> string" where
  "bearer t = ''Bearer '' @ t"

definition set_authorization :: "request_config \<Rightarrow> string \<Rightarrow> request_config" where
  "set_authorization config t = config\<lparr>headers := (headers config)(''Authorization'' \<mapsto> bearer t)\<rparr>"

text \<open>
  The interceptor reads \<open>accessToken\<close> and, through \<open>refreshAccessToken\<close>, \<open>refreshToken\<close>
  from the render that built the axios instance: the session of the world it is given.
  The \<open>Cancel\<close> thrown when the refresh gives nothing is thrown inside the \<open>try\<close> block, so
  the \<open>catch\<close> block runs too: it logs out again and throws its own \<open>Cancel\<close>.
\<close>

definition interceptor :: "env \<Rightarrow> auth_world \<Rightarrow> request_config \<Rightarrow> intercepted \<times> auth_world" where
  "interceptor e w config =
     (if truthy (accessToken (session w)) then
        (case jwtDecode e (the (accessToken (session w))) of
           DecodeError \<Rightarrow> (Cancel ''Invalid token. Please log in again.'', logout w)
         | JwtPayload ex \<Rightarrow>
             if expired e ex then
               (case refreshAccessToken e (refreshToken (session w)) w of
                  (newAccessToken, w1) \<Rightarrow>
                    if truthy newAccessToken
                    then (Proceed (set_authorization config (the newAccessToken)), w1)
                    else (Cancel ''Invalid token. Please log in again.'', logout (logout w1)))
             else (Proceed (set_authorization config (the (accessToken (session w)))), w))
      else (Proceed config, w))"

subsection \<open>Role lookup on startup and on login\<close>

definition set_role :: "string \<Rightarrow> auth_world \<Rightarrow> auth_world" where
  "set_role userRole w =
     w\<lparr>session := (session w)\<lparr>role := Some userRole, isAdmin := (userRole = ''admin'')\<rparr>\<rparr>"

definition role_or_user :: "string option \<Rightarrow> string" where
  "role_or_user r = (if truthy r then the r else ''user'')"

definition or_null :: "string option \<Rightarrow> string option" where
  "or_null v = (if truthy v then v else None)"

definition get_me :: "env \<Rightarrow> nat \<Rightarrow> string \<Rightarrow> auth_world \<Rightarrow> me_response \<times> auth_world" where
  "get_me e attempt token w =
     (me_api e attempt token, w\<lparr>requests := requests w @ [GetMe token]\<rparr>)"

definition push_route :: "string \<Rightarrow> auth_world \<Rightarrow> auth_world" where
  "push_route r w = w\<lparr>router_pushes := router_pushes w @ [r]\<rparr>"

definition checkAuthStatus :: "env \<Rightarrow> auth_world \<Rightarrow> auth_world" where
  "checkAuthStatus e w =
     (let currentAccessToken = cookies w ''accessToken'';
          currentRefreshToken = cookies w ''refreshToken'';
          emailFromCookie = cookies w ''email''
      in if truthy currentAccessToken \<and> truthy currentRefreshToken \<and> truthy emailFromCookie
         then
           (let w1 = w\<lparr>session := (session w)\<lparr>isAuthenticated := True,
                           accessToken := currentAccessToken,
                           refreshToken := currentRefreshToken,
                           email := emailFromCookie,
                           firstName := or_null (cookies w ''firstName''),
                           lastName := or_null (cookies w ''lastName'')\<rparr>\<rparr>;
                routed = (\<lambda>v. if pathname e \<in> set authRoutes then push_route ''/chat'' v else v)
            in case get_me e 0 (the currentAccessToken) w1 of
                 (MeOk r, w2) \<Rightarrow> routed (set_role (role_or_user r) w2)
               | (MeFailed status, w2) \<Rightarrow>
                   if unauthorized status then
                     (case refreshAccessToken e (refreshToken (session w)) w2 of
                        (newAccessToken, w3) \<Rightarrow>
                          if truthy newAccessToken then
                            (case get_me e 1 (the newAccessToken) w3 of
                               (MeOk r, w4) \<Rightarrow> routed (set_role (role_or_user r) w4)
                             | (MeFailed status', w4) \<Rightarrow> clearAuthAndRedirect w4)
                          else logout w3)
                   else routed (set_role ''user'' w2))
         else
           (let w1 = w\<lparr>session := (session w)\<lparr>isAuthenticated := False, role := None,
                                               isAdmin := False\<rparr>\<rparr>
            in if pathname e \<in> set protectedRoutes then push_route ''/signin'' w1 else w1))"

definition login ::
  "env \<Rightarrow> auth_world \<Rightarrow> string \<Rightarrow> string \<Rightarrow> string \<Rightarrow> string \<Rightarrow> string \<Rightarrow> auth_world" where
  "login e w access refresh mail fname lname =
     (let w1 = w\<lparr>cookies := (cookies w)(''accessToken'' \<mapsto> access, ''refreshToken'' \<mapsto> refresh,
                      ''email'' \<mapsto> mail, ''firstName'' \<mapsto> fname, ''lastName'' \<mapsto> lname),
                 session := (session w)\<lparr>isAuthenticated := True,
                      accessToken := Some access, refreshToken := Some refresh,
                      email := Some mail, firstName := Some fname, lastName := Some lname\<rparr>\<rparr>
      in case get_me e 0 access w1 of
           (MeOk r, w2) \<Rightarrow> push_route ''/chat'' (set_role (role_or_user r) w2)
         | (MeFailed status, w2) \<Rightarrow>
             if unauthorized status then
               (case refreshAccessToken e (refreshToken (session w)) w2 of
                  (newAccessToken, w3) \<Rightarrow>
                    if truthy newAccessToken then
                      (case get_me e 1 (the newAccessToken) w3 of
                         (MeOk r, w4) \<Rightarrow> push_route ''/chat'' (set_role (role_or_user r) w4)
                       | (MeFailed status', w4) \<Rightarrow> clearAuthAndRedirect w4)
                    else push_route ''/chat'' (set_role ''user'' w3))
             else push_route ''/chat'' (set_role ''user'' w2))"

section \<open>Driving the model\<close>

text \<open>The two callbacks a consumer of the hook can call, and a run of such calls.\<close>

datatype hook_call = CallIncrement | CallReset

definition perform :: "hook \<Rightarrow> hook_call \<Rightarrow> hook" where
  "perform h c = (case c of CallIncrement \<Rightarrow> dispatch incrementCount h
                          | CallReset \<Rightarrow> dispatch resetCount h)"

text \<open>A healthy store holding \<open>v\<close> under the counter key, and a page of a hook at count \<open>n\<close>.\<close>

definition stored :: "string \<Rightarrow> local_storage" where
  "stored v = \<lparr>entries = [STORAGE_KEY \<mapsto> v], denied = False, full = False\<rparr>"

definition guest_page :: "int \<Rightarrow> chat_page" where
  "guest_page n =
     new_page \<lparr>queryCount = n, storage = empty_storage, incrementCalls = 0, resetCalls = 0\<rparr>"

text \<open>
  An environment for concrete runs. It decodes five token strings: one expiring in 2033, one
  expired in 2001, one with \<open>exp = 0\<close>, one without \<open>exp\<close>, and anything else is malformed.
  The clock stands in November 2023. The refresh endpoint accepts one refresh token and
  answers 401 to any other; the role endpoint knows the fresh token and answers 500 otherwise.
\<close>

definition sample_env :: env where
  "sample_env =
     \<lparr>jwtDecode = (\<lambda>t. if t = ''tok.fresh'' then JwtPayload (Some 2000000000)
                     else if t = ''tok.stale'' then JwtPayload (Some 1000000000)
                     else if t = ''tok.epoch'' then JwtPayload (Some 0)
                     else if t = ''tok.noexp'' then JwtPayload None
                     else DecodeError),
      now = 1700000000000,
      refresh_api = (\<lambda>r. if r = ''refresh.ok'' then RefreshOk ''tok.fresh'' ''refresh.next''
                       else RefreshFailed (Some 401)),
      me_api = (\<lambda>attempt t. if t = ''tok.fresh'' then MeOk (Some ''admin'')
                             else MeFailed (Some 500)),
      pathname = ''/signin''\<rparr>"

definition signed_in :: "string \<Rightarrow> string \<Rightarrow> auth_world" where
  "signed_in access refresh =
     \<lparr>session = \<lparr>isAuthenticated = True, email = Some ''a@b.c'', firstName = Some ''A'',
         lastName = Some ''B'', role = Some ''user'', isAdmin = False,
         accessToken = Some access, refreshToken = Some refresh\<rparr>,
      cookies = [''accessToken'' \<mapsto> access, ''refreshToken'' \<mapsto> refresh, ''email'' \<mapsto> ''a@b.c'',
         ''firstName'' \<mapsto> ''A'', ''lastName'' \<mapsto> ''B''],
      router_pushes = [], refreshCalls = 0, logoutCalls = 0, requests = []\<rparr>"

definition signed_out :: auth_world where
  "signed_out = \<lparr>session = no_session, cookies = Map.empty, router_pushes = [],
     refreshCalls = 0, logoutCalls = 0, requests = []\<rparr>"

definition get_request :: "string \<Rightarrow> request_config" where
  "get_request u = \<lparr>url = u, headers = [''Content-Type'' \<mapsto> ''application/json'']\<rparr>"

text \<open>Cookies of an earlier visit, before the provider has read them.\<close>

definition returning :: "string \<Rightarrow> string \<Rightarrow> auth_world" where
  "returning access refresh = (signed_in access refresh)\<lparr>session := no_session\<rparr>"

section \<open>Properties of the query limit\<close>

lemma queryCount_persist_effect [simp]:
  "queryCount (persist_effect r h) = queryCount h"
  by (simp add: persist_effect_def split: sum.splits)

lemma queryCount_rerender [simp]:
  "queryCount (rerender p h) = queryCount h"
  by (simp add: rerender_def)

lemma queryCount_dispatch_increment [simp]:
  "queryCount (dispatch incrementCount h) = queryCount h + 1"
  by (simp add: dispatch_def incrementCount_def)

lemma queryCount_dispatch_reset [simp]:
  "queryCount (dispatch resetCount h) = 0"
  by (simp add: dispatch_def resetCount_def Let_def split: sum.splits)

lemma queryCount_increments:
  "queryCount ((dispatch incrementCount ^^ n) h) = queryCount h + int n"
  by (induction n) simp_all

lemma queryCount_mount_absent:
  "entries ls STORAGE_KEY = None \<Longrightarrow> queryCount (useQueryLimit_mount ls) = 0"
  by (simp add: useQueryLimit_mount_def init_effect_def getItem_def Let_def)

text \<open>
  C2. After \<open>n\<close> increments from a fresh counter (mounted on a store with no entry under the
  key) the count is \<open>n\<close>, \<open>remainingQueries = max(0, 20 - n)\<close>,
  \<open>hasExceededLimit = (n \<ge> 20)\<close> and \<open>canMakeQuery = (n < 20)\<close>; the limit is 20.
\<close>

theorem query_limit_state_after_increments:
  assumes "entries ls STORAGE_KEY = None"
  shows "QUERY_LIMIT = 20
    \<and> queryCount ((dispatch incrementCount ^^ n) (useQueryLimit_mount ls)) = int n
    \<and> remainingQueries ((dispatch incrementCount ^^ n) (useQueryLimit_mount ls))
        = max 0 (20 - int n)
    \<and> hasExceededLimit ((dispatch incrementCount ^^ n) (useQueryLimit_mount ls))
        = (int n \<ge> 20)
    \<and> canMakeQuery ((dispatch incrementCount ^^ n) (useQueryLimit_mount ls))
        = (int n < 20)"
  using assms
  by (simp add: queryCount_increments queryCount_mount_absent QUERY_LIMIT_def
      remainingQueries_def hasExceededLimit_def canMakeQuery_def)

theorem query_limit_state_after_increments_witness:
  "entries empty_storage STORAGE_KEY = None
    \<and> queryCount ((dispatch incrementCount ^^ 23) (useQueryLimit_mount empty_storage)) = 23
    \<and> remainingQueries ((dispatch incrementCount ^^ 23) (useQueryLimit_mount empty_storage)) = 0
    \<and> hasExceededLimit ((dispatch incrementCount ^^ 23) (useQueryLimit_mount empty_storage))
    \<and> \<not> canMakeQuery ((dispatch incrementCount ^^ 23) (useQueryLimit_mount empty_storage))"
  using query_limit_state_after_increments [of empty_storage 23]
  by (simp add: empty_storage_def)

subsection \<open>Initialisation and the sign of the count\<close>

lemma toString_0: "toString 0 = ''0''"
  by (simp add: toString_def string_of_nat.simps digit_char_def)

lemma parseInt_0: "parseInt ''0'' = Some 0"
  by (simp add: parseInt_def is_ws_def is_digit_def digits_value_def)

lemma parseInt_minus_5: "parseInt ''-5'' = Some (- 5)"
  by (simp add: parseInt_def is_ws_def is_digit_def digits_value_def)

lemma parseInt_prefix: "parseInt '' +12abc'' = Some 12"
  by (simp add: parseInt_def is_ws_def is_digit_def digits_value_def)

lemma parseInt_no_digit: "parseInt ''abc'' = None"
  by (simp add: parseInt_def is_ws_def is_digit_def digits_value_def)

lemma queryCount_init_effect_nonneg:
  "0 \<le> queryCount h \<Longrightarrow> 0 \<le> queryCount (init_effect h)"
  by (simp add: init_effect_def split: sum.splits option.splits)

lemma queryCount_mount:
  "queryCount (useQueryLimit_mount ls) =
   queryCount (init_effect \<lparr>queryCount = 0, storage = ls, incrementCalls = 0, resetCalls = 0\<rparr>)"
  by (simp add: useQueryLimit_mount_def Let_def)

lemma queryCount_mount_nonneg: "0 \<le> queryCount (useQueryLimit_mount ls)"
  by (simp add: queryCount_mount queryCount_init_effect_nonneg)

lemma queryCount_mount_unusable:
  "(case entries ls STORAGE_KEY of None \<Rightarrow> True
     | Some s \<Rightarrow> (case parseInt s of None \<Rightarrow> True | Some c \<Rightarrow> c < 0))
   \<Longrightarrow> queryCount (useQueryLimit_mount ls) = 0"
  by (auto simp: queryCount_mount init_effect_def getItem_def split: option.splits)

lemma queryCount_perform_nonneg: "0 \<le> queryCount h \<Longrightarrow> 0 \<le> queryCount (perform h c)"
  by (cases c) (simp_all add: perform_def)

lemma queryCount_foldl_perform_nonneg:
  "0 \<le> queryCount h \<Longrightarrow> 0 \<le> queryCount (foldl perform h cs)"
  by (induction cs arbitrary: h) (simp_all add: queryCount_perform_nonneg)

text \<open>
  C10. Whatever the store holds, the count is not negative after initialisation; when the
  entry is absent, has no leading number, or parses to a negative number, the count is 0
  (a stored negative value is not loaded). Increment adds 1 and reset sets 0, so the count
  stays non-negative under each of them and after every run of them from initialisation.
\<close>

theorem queryCount_never_negative:
  "0 \<le> queryCount (useQueryLimit_mount ls)
   \<and> ((case entries ls STORAGE_KEY of None \<Rightarrow> True
        | Some s \<Rightarrow> (case parseInt s of None \<Rightarrow> True | Some c \<Rightarrow> c < 0))
       \<longrightarrow> queryCount (useQueryLimit_mount ls) = 0)
   \<and> (0 \<le> queryCount h \<longrightarrow>
        queryCount (dispatch incrementCount h) = queryCount h + 1
        \<and> queryCount (dispatch resetCount h) = 0
        \<and> 0 \<le> queryCount (dispatch incrementCount h)
        \<and> 0 \<le> queryCount (dispatch resetCount h))
   \<and> 0 \<le> queryCount (foldl perform (useQueryLimit_mount ls) cs)"
  using queryCount_mount_unusable [of ls]
  by (simp add: queryCount_mount_nonneg queryCount_foldl_perform_nonneg)

theorem queryCount_never_negative_witness:
  "parseInt ''-5'' = Some (- 5)
   \<and> queryCount (useQueryLimit_mount (stored ''-5'')) = 0
   \<and> queryCount (dispatch incrementCount (useQueryLimit_mount (stored ''-5''))) = 1
   \<and> 0 \<le> queryCount (foldl perform (useQueryLimit_mount (stored ''-5''))
             [CallIncrement, CallIncrement, CallReset, CallIncrement])"
  using queryCount_never_negative [of "stored ''-5''" "useQueryLimit_mount (stored ''-5'')"
      "[CallIncrement, CallIncrement, CallReset, CallIncrement]"]
  by (simp add: stored_def parseInt_minus_5)

subsection \<open>Reset and the persistent store\<close>

lemma storage_reset_healthy:
  "\<not> denied (storage h) \<Longrightarrow> \<not> full (storage h) \<Longrightarrow> queryCount h \<noteq> 0 \<Longrightarrow>
   entries (storage (dispatch resetCount h)) STORAGE_KEY = Some ''0''"
  by (simp add: dispatch_def resetCount_def removeItem_def rerender_def persist_effect_def
      setItem_def toString_0 Let_def)

lemma storage_reset_from_zero:
  "\<not> denied (storage h) \<Longrightarrow> queryCount h = 0 \<Longrightarrow>
   entries (storage (dispatch resetCount h)) STORAGE_KEY = None"
  by (simp add: dispatch_def resetCount_def removeItem_def rerender_def Let_def)

lemma storage_resetCount_callback:
  "\<not> denied (storage h) \<Longrightarrow> entries (storage (resetCount h)) STORAGE_KEY = None"
  by (simp add: resetCount_def removeItem_def Let_def)

lemma canMakeQuery_after_reset: "canMakeQuery (dispatch resetCount h)"
  by (simp add: canMakeQuery_def QUERY_LIMIT_def)

lemma mount_stored_15:
  "queryCount (useQueryLimit_mount (stored ''15'')) = 15
   \<and> \<not> denied (storage (useQueryLimit_mount (stored ''15'')))
   \<and> \<not> full (storage (useQueryLimit_mount (stored ''15'')))"
  by (simp add: useQueryLimit_mount_def init_effect_def getItem_def stored_def Let_def
      parseInt_def is_ws_def is_digit_def digits_value_def rerender_def persist_effect_def
      setItem_def)

text \<open>
  C4, evaluated on the code. A hook mounted on a store holding \<open>15\<close> has count 15. After
  \<open>resetCount\<close> and the re-render it causes, the count is 0 and \<open>canMakeQuery\<close> holds, but the
  store has the entry \<open>0\<close> under the counter key: \<open>resetCount\<close> removes the entry, and the
  persisting effect, which runs because the count changed, writes it again.
\<close>

theorem reset_leaves_zero_entry:
  "queryCount (useQueryLimit_mount (stored ''15'')) = 15
   \<and> queryCount (dispatch resetCount (useQueryLimit_mount (stored ''15''))) = 0
   \<and> canMakeQuery (dispatch resetCount (useQueryLimit_mount (stored ''15'')))
   \<and> entries (storage (dispatch resetCount (useQueryLimit_mount (stored ''15'')))) STORAGE_KEY
       = Some ''0''"
  using mount_stored_15 storage_reset_healthy [of "useQueryLimit_mount (stored ''15'')"]
  by (simp add: canMakeQuery_def QUERY_LIMIT_def)

section \<open>Properties of the chat page\<close>

text \<open>
  C1. When a guest submits while \<open>canMakeQuery\<close> is false, which means the count is at
  least 20, the chat transport is not called, the default submission is suppressed, and the
  signup dialog is opened with the current count as its \<open>queryCount\<close>.
\<close>

theorem guest_over_limit_submit_blocked:
  assumes "\<not> canMakeQuery (limit p)"
  shows "queryCount (limit p) \<ge> 20
    \<and> transportCalls (handleChatSubmit False p) = transportCalls p
    \<and> preventedDefaults (handleChatSubmit False p) = preventedDefaults p + 1
    \<and> SignupPromptDialog_props (handleChatSubmit False p) = (True, queryCount (limit p))"
  using assms
  by (simp add: handleChatSubmit_def SignupPromptDialog_props_def canMakeQuery_def
      QUERY_LIMIT_def Let_def)

theorem guest_over_limit_submit_blocked_witness:
  "\<not> canMakeQuery (limit (guest_page 20))
    \<and> transportCalls (handleChatSubmit False (guest_page 20)) = 0
    \<and> SignupPromptDialog_props (handleChatSubmit False (guest_page 20)) = (True, 20)"
  using guest_over_limit_submit_blocked [of "guest_page 20"]
  by (simp add: guest_page_def new_page_def canMakeQuery_def QUERY_LIMIT_def)

lemma submit_forwarded_otherwise:
  "isAuth \<or> canMakeQuery (limit p) \<Longrightarrow>
   transportCalls (handleChatSubmit isAuth p) = transportCalls p + 1
   \<and> showSignupDialog (handleChatSubmit isAuth p) = showSignupDialog p"
  by (auto simp: handleChatSubmit_def Let_def)

subsection \<open>Counting completed guest exchanges\<close>

lemma limit_deliver_chunk [simp]: "limit (deliver a p (Chunk c)) = limit p"
  by (simp add: deliver_def)

lemma limit_onError: "onError err p = Inr p' \<Longrightarrow> limit p' = limit p"
  by (auto simp: onError_def split: chat_error.splits option.splits if_splits)

lemma limit_deliver_failed [simp]: "limit (deliver a p (Failed err)) = limit p"
  by (auto simp: deliver_def split: sum.splits dest: limit_onError)

lemma limit_deliver_finished_guest [simp]:
  "limit (deliver False p Finished) = dispatch incrementCount (limit p)"
  by (simp add: deliver_def onFinish_def)

lemma limit_deliver_finished_authenticated [simp]:
  "limit (deliver True p Finished) = limit p"
  by (simp add: deliver_def onFinish_def)

lemma limit_deliver_authenticated [simp]: "limit (deliver True p ev) = limit p"
  by (cases ev) simp_all

lemma limit_exchange_chunks [simp]: "limit (exchange a (map Chunk cs) p) = limit p"
  unfolding exchange_def by (induction cs arbitrary: p) simp_all

lemma limit_exchange_authenticated [simp]: "limit (exchange True evs p) = limit p"
  unfolding exchange_def by (induction evs arbitrary: p) simp_all

lemma exchange_append: "exchange a (xs @ ys) p = exchange a ys (exchange a xs p)"
  by (simp add: exchange_def)

lemma exchange_single: "exchange a [ev] p = deliver a p ev"
  by (simp add: exchange_def)

lemma incrementCalls_dispatch_increment [simp]:
  "incrementCalls (dispatch incrementCount h) = incrementCalls h + 1"
  by (simp add: dispatch_def incrementCount_def rerender_def persist_effect_def
      split: sum.splits)

text \<open>
  C5. A guest exchange that streams any chunks and then finishes calls \<open>incrementCount\<close>
  exactly once and raises the count by one; the chunks alone, and an exchange that fails,
  leave the hook as it was; an authenticated exchange, whatever its events, leaves the hook
  as it was. From count 19 a completed guest exchange gives count 20 and \<open>canMakeQuery\<close>
  false.
\<close>

theorem guest_exchange_increments_once:
  "incrementCalls (limit (exchange False (map Chunk cs @ [Finished]) p))
     = incrementCalls (limit p) + 1
   \<and> queryCount (limit (exchange False (map Chunk cs @ [Finished]) p))
     = queryCount (limit p) + 1
   \<and> limit (exchange False (map Chunk cs) p) = limit p
   \<and> limit (exchange False (map Chunk cs @ [Failed err]) p) = limit p
   \<and> limit (exchange True evs p) = limit p
   \<and> (queryCount (limit p) = 19 \<longrightarrow>
        queryCount (limit (exchange False (map Chunk cs @ [Finished]) p)) = 20
        \<and> \<not> canMakeQuery (limit (exchange False (map Chunk cs @ [Finished]) p)))"
  by (simp add: exchange_append exchange_single canMakeQuery_def QUERY_LIMIT_def)

theorem guest_exchange_increments_once_witness:
  "queryCount (limit (guest_page 19)) = 19
   \<and> queryCount (limit (exchange False (map Chunk [''Hel'', ''lo''] @ [Finished])
        (guest_page 19))) = 20
   \<and> incrementCalls (limit (exchange False (map Chunk [''Hel'', ''lo''] @ [Finished])
        (guest_page 19))) = 1
   \<and> \<not> canMakeQuery (limit (exchange False (map Chunk [''Hel'', ''lo''] @ [Finished])
        (guest_page 19)))"
  using guest_exchange_increments_once [of "[''Hel'', ''lo'']" "guest_page 19"]
  by (simp add: guest_page_def new_page_def)

subsection \<open>Reset on authentication\<close>

lemma resetCalls_dispatch_reset [simp]:
  "resetCalls (dispatch resetCount h) = resetCalls h + 1"
  by (simp add: dispatch_def resetCount_def rerender_def persist_effect_def Let_def
      split: sum.splits)

lemma resetCalls_dispatch_increment [simp]:
  "resetCalls (dispatch incrementCount h) = resetCalls h"
  by (simp add: dispatch_def incrementCount_def rerender_def persist_effect_def
      split: sum.splits)

lemma resetCalls_deliver [simp]: "resetCalls (limit (deliver a p ev)) = resetCalls (limit p)"
  by (cases ev; cases a) simp_all

lemma resetCalls_exchange [simp]:
  "resetCalls (limit (exchange a evs p)) = resetCalls (limit p)"
  unfolding exchange_def by (induction evs arbitrary: p) simp_all

lemma limit_handleChatSubmit [simp]: "limit (handleChatSubmit a p) = limit p"
  by (simp add: handleChatSubmit_def Let_def)

lemma mount_after_reset:
  "queryCount (useQueryLimit_mount (storage (dispatch resetCount h))) = 0"
  by (auto simp: queryCount_mount init_effect_def getItem_def dispatch_def resetCount_def
      removeItem_def rerender_def persist_effect_def setItem_def toString_0 parseInt_0 Let_def
      split: option.splits)

text \<open>
  C6. When \<open>isAuthenticated\<close> changes from false to true (or is true on mount) the provider's
  effect calls \<open>resetCount\<close> exactly once and the count becomes 0, from any count. With the
  flag unchanged, or false, the effect calls nothing. Submitting and the events of an
  exchange never call \<open>resetCount\<close>. Calling it a second time changes neither the count nor
  the values derived from it, nor the count a later mount would load from the store.
\<close>

theorem reset_on_authentication:
  "resetCalls (QueryLimitProvider (Some False) True h) = resetCalls h + 1
   \<and> queryCount (QueryLimitProvider (Some False) True h) = 0
   \<and> resetCalls (QueryLimitProvider None True h) = resetCalls h + 1
   \<and> QueryLimitProvider (Some True) True h = h
   \<and> QueryLimitProvider prev False h = h
   \<and> resetCalls (limit (handleChatSubmit a p)) = resetCalls (limit p)
   \<and> resetCalls (limit (exchange a evs p)) = resetCalls (limit p)
   \<and> queryCount (dispatch resetCount (dispatch resetCount h))
       = queryCount (dispatch resetCount h)
   \<and> remainingQueries (dispatch resetCount (dispatch resetCount h))
       = remainingQueries (dispatch resetCount h)
   \<and> hasExceededLimit (dispatch resetCount (dispatch resetCount h))
       = hasExceededLimit (dispatch resetCount h)
   \<and> canMakeQuery (dispatch resetCount (dispatch resetCount h))
       = canMakeQuery (dispatch resetCount h)
   \<and> queryCount (useQueryLimit_mount (storage (dispatch resetCount (dispatch resetCount h))))
       = queryCount (useQueryLimit_mount (storage (dispatch resetCount h)))"
  by (simp add: QueryLimitProvider_def provider_effect_def remainingQueries_def
      hasExceededLimit_def canMakeQuery_def mount_after_reset)

theorem reset_on_authentication_witness:
  "queryCount (limit (guest_page 15)) = 15
   \<and> queryCount (QueryLimitProvider (Some False) True (limit (guest_page 15))) = 0
   \<and> resetCalls (QueryLimitProvider (Some False) True (limit (guest_page 15))) = 1
   \<and> resetCalls (limit (handleChatSubmit False (guest_page 15))) = 0"
  using reset_on_authentication [of "limit (guest_page 15)" None False "guest_page 15" "[]"]
  by (simp add: guest_page_def new_page_def)

section \<open>Properties of the request interceptor\<close>

lemma refreshCalls_logout [simp]: "refreshCalls (logout w) = refreshCalls w"
  by (simp add: logout_def)

lemma session_logout [simp]: "session (logout w) = no_session"
  by (simp add: logout_def)

lemma requests_logout [simp]: "requests (logout w) = requests w"
  by (simp add: logout_def)

lemma cookies_logout:
  "cookies (logout w) ''accessToken'' = None \<and> cookies (logout w) ''refreshToken'' = None
   \<and> cookies (logout w) ''email'' = None"
  by (simp add: logout_def)

lemma router_pushes_logout [simp]:
  "router_pushes (logout w) = router_pushes w @ [''/signin'']"
  by (simp add: logout_def)

lemma refreshCalls_refreshAccessToken [simp]:
  "refreshCalls (snd (refreshAccessToken e rt w)) = refreshCalls w + 1"
  by (simp add: refreshAccessToken_def Let_def split: refresh_response.splits)

lemma requests_refreshAccessToken:
  "requests (snd (refreshAccessToken e rt w)) =
     (if truthy rt then requests w @ [PostRefresh (the rt)] else requests w)"
  by (simp add: refreshAccessToken_def Let_def split: refresh_response.splits)

text \<open>
  C7. A present access token whose expiry lies in the future is attached unchanged as
  \<open>Authorization: Bearer <token>\<close>; the world is left as it was, so no refresh is called and
  no request is sent. With no access token (\<open>null\<close> or the empty string) the request is
  forwarded as it came, with the headers it had.
\<close>

theorem unexpired_token_attached:
  "(accessToken (session w) = Some t \<and> t \<noteq> [] \<and> jwtDecode e t = JwtPayload (Some ex)
      \<and> now e < ex * 1000
     \<longrightarrow> interceptor e w config = (Proceed (set_authorization config t), w)
         \<and> headers (set_authorization config t) ''Authorization'' = Some (''Bearer '' @ t)
         \<and> refreshCalls (snd (interceptor e w config)) = refreshCalls w
         \<and> requests (snd (interceptor e w config)) = requests w)
   \<and> (accessToken (session w) = None \<or> accessToken (session w) = Some []
     \<longrightarrow> interceptor e w config = (Proceed config, w))"
  by (auto simp: interceptor_def truthy_def expired_def set_authorization_def bearer_def)

theorem unexpired_token_attached_witness:
  "accessToken (session (signed_in ''tok.fresh'' ''refresh.ok'')) = Some ''tok.fresh''
   \<and> jwtDecode sample_env ''tok.fresh'' = JwtPayload (Some 2000000000)
   \<and> now sample_env < 2000000000 * 1000
   \<and> interceptor sample_env (signed_in ''tok.fresh'' ''refresh.ok'') (get_request ''/api/list'')
     = (Proceed (set_authorization (get_request ''/api/list'') ''tok.fresh''),
        signed_in ''tok.fresh'' ''refresh.ok'')
   \<and> headers (set_authorization (get_request ''/api/list'') ''tok.fresh'') ''Authorization''
     = Some ''Bearer tok.fresh''
   \<and> accessToken (session signed_out) = None
   \<and> interceptor sample_env signed_out (get_request ''/api/chat/guest'')
     = (Proceed (get_request ''/api/chat/guest''), signed_out)
   \<and> headers (get_request ''/api/chat/guest'') ''Authorization'' = None"
  using unexpired_token_attached [of "signed_in ''tok.fresh'' ''refresh.ok''" "''tok.fresh''"
      sample_env 2000000000 "get_request ''/api/list''"]
    unexpired_token_attached [of signed_out "''''" sample_env 0
      "get_request ''/api/chat/guest''"]
  by (simp add: sample_env_def signed_in_def signed_out_def no_session_def get_request_def)

text \<open>
  C3, evaluated on the code. The token decodes to \<open>exp = 0\<close>, an expiry in the past for
  the clock of the environment. The interceptor attaches the token and forwards the request
  without calling \<open>refreshAccessToken\<close>: \<open>decodedToken.exp && ...\<close> is falsy for the
  number 0.
\<close>

theorem epoch_expiry_not_refreshed:
  "jwtDecode sample_env ''tok.epoch'' = JwtPayload (Some 0)
   \<and> 0 * 1000 < now sample_env
   \<and> interceptor sample_env (signed_in ''tok.epoch'' ''refresh.ok'') (get_request ''/api/list'')
     = (Proceed (set_authorization (get_request ''/api/list'') ''tok.epoch''),
        signed_in ''tok.epoch'' ''refresh.ok'')
   \<and> refreshCalls (snd (interceptor sample_env (signed_in ''tok.epoch'' ''refresh.ok'')
        (get_request ''/api/list''))) = 0
   \<and> requests (snd (interceptor sample_env (signed_in ''tok.epoch'' ''refresh.ok'')
        (get_request ''/api/list''))) = []"
  by (simp add: interceptor_def truthy_def expired_def sample_env_def signed_in_def)

text \<open>
  For a present token with a non-zero expiry in the past: \<open>refreshAccessToken\<close> is called
  exactly once and at most one request is sent; when it returns a token the request goes out
  with that token; when it returns nothing the request is cancelled and the session is
  logged out.
\<close>

lemma interceptor_expired:
  assumes "accessToken (session w) = Some t" "t \<noteq> []"
    "jwtDecode e t = JwtPayload (Some ex)" "ex \<noteq> 0" "ex * 1000 < now e"
  shows "refreshCalls (snd (interceptor e w config)) = refreshCalls w + 1"
    and "length (requests (snd (interceptor e w config))) \<le> length (requests w) + 1"
    and "truthy (fst (refreshAccessToken e (refreshToken (session w)) w)) \<Longrightarrow>
         fst (interceptor e w config) = Proceed (set_authorization config
            (the (fst (refreshAccessToken e (refreshToken (session w)) w))))"
    and "\<not> truthy (fst (refreshAccessToken e (refreshToken (session w)) w)) \<Longrightarrow>
         fst (interceptor e w config) = Cancel ''Invalid token. Please log in again.''
         \<and> session (snd (interceptor e w config)) = no_session
         \<and> cookies (snd (interceptor e w config)) ''accessToken'' = None
         \<and> cookies (snd (interceptor e w config)) ''refreshToken'' = None"
  using assms
  by (simp_all add: interceptor_def truthy_def expired_def requests_refreshAccessToken
      cookies_logout case_prod_beta)

text \<open>
  C8 as stated fails. The token is malformed and a refresh would succeed, yet the interceptor
  cancels the request and calls no refresh; with an expired token in the same session it
  refreshes once and forwards the request with the new token.
\<close>

theorem malformed_token_not_refreshed:
  "jwtDecode sample_env ''tok.garbled'' = DecodeError
   \<and> fst (refreshAccessToken sample_env (Some ''refresh.ok'')
        (signed_in ''tok.garbled'' ''refresh.ok'')) = Some ''tok.fresh''
   \<and> fst (interceptor sample_env (signed_in ''tok.garbled'' ''refresh.ok'') (get_request ''/api/list''))
       = Cancel ''Invalid token. Please log in again.''
   \<and> refreshCalls (snd (interceptor sample_env (signed_in ''tok.garbled'' ''refresh.ok'')
        (get_request ''/api/list''))) = 0
   \<and> jwtDecode sample_env ''tok.stale'' = JwtPayload (Some 1000000000)
   \<and> fst (interceptor sample_env (signed_in ''tok.stale'' ''refresh.ok'')
        (get_request ''/api/list''))
       = Proceed (set_authorization (get_request ''/api/list'') ''tok.fresh'')
   \<and> refreshCalls (snd (interceptor sample_env (signed_in ''tok.stale'' ''refresh.ok'')
        (get_request ''/api/list''))) = 1"
  by (simp add: interceptor_def truthy_def expired_def sample_env_def signed_in_def
      refreshAccessToken_def Let_def)

text \<open>
  C8, amended. For a present access token that fails to decode, the interceptor calls no
  refresh and sends no request: it cancels the request and logs out (session cleared, token
  cookies removed, redirect to \<open>/signin\<close>), whether or not a refresh would have succeeded.
\<close>

theorem malformed_token_logs_out:
  assumes "accessToken (session w) = Some t" "t \<noteq> []" "jwtDecode e t = DecodeError"
  shows "interceptor e w config = (Cancel ''Invalid token. Please log in again.'', logout w)
    \<and> refreshCalls (snd (interceptor e w config)) = refreshCalls w
    \<and> requests (snd (interceptor e w config)) = requests w
    \<and> logoutCalls (snd (interceptor e w config)) = logoutCalls w + 1
    \<and> session (snd (interceptor e w config)) = no_session
    \<and> cookies (snd (interceptor e w config)) ''accessToken'' = None
    \<and> cookies (snd (interceptor e w config)) ''refreshToken'' = None
    \<and> router_pushes (snd (interceptor e w config)) = router_pushes w @ [''/signin'']"
  using assms by (simp add: interceptor_def truthy_def logout_def)

theorem malformed_token_logs_out_witness:
  "accessToken (session (signed_in ''tok.garbled'' ''refresh.ok'')) = Some ''tok.garbled''
   \<and> jwtDecode sample_env ''tok.garbled'' = DecodeError
   \<and> fst (interceptor sample_env (signed_in ''tok.garbled'' ''refresh.ok'') (get_request ''/api/list''))
     = Cancel ''Invalid token. Please log in again.''
   \<and> refreshCalls (snd (interceptor sample_env (signed_in ''tok.garbled'' ''refresh.ok'')
        (get_request ''/api/list''))) = 0
   \<and> \<not> isAuthenticated (session (snd (interceptor sample_env
        (signed_in ''tok.garbled'' ''refresh.ok'') (get_request ''/api/list''))))"
  using malformed_token_logs_out [of "signed_in ''tok.garbled'' ''refresh.ok''" "''tok.garbled''"
      sample_env "get_request ''/api/list''"]
  by (simp add: sample_env_def signed_in_def no_session_def)

section \<open>Properties of the role lookup\<close>

lemma session_push_route [simp]: "session (push_route r w) = session w"
  by (simp add: push_route_def)

lemma logoutCalls_push_route [simp]: "logoutCalls (push_route r w) = logoutCalls w"
  by (simp add: push_route_def)

lemma cookies_push_route [simp]: "cookies (push_route r w) = cookies w"
  by (simp add: push_route_def)

lemma refreshCalls_push_route [simp]: "refreshCalls (push_route r w) = refreshCalls w"
  by (simp add: push_route_def)

text \<open>
  C9. When the role request made after login or on startup fails with anything but 401 or
  403 (another status, or no response at all), \<open>login\<close> and \<open>checkAuthStatus\<close> (given the
  three cookies it needs) set the role to \<open>user\<close> and \<open>isAdmin\<close> to false; the session
  stays authenticated with its token, \<open>logout\<close> and \<open>refreshAccessToken\<close> are not called,
  and the token cookie stays. (The retry that follows a 401 or 403 and a refresh is a different
  path: when that second request fails, the code logs out.)
\<close>

theorem role_fetch_failure_defaults_to_user:
  assumes "me_api e 0 access = MeFailed status" "\<not> unauthorized status"
  shows "session (login e w access refresh mail fname lname)
       = \<lparr>isAuthenticated = True, email = Some mail, firstName = Some fname,
          lastName = Some lname, role = Some ''user'', isAdmin = False,
          accessToken = Some access, refreshToken = Some refresh\<rparr>
    \<and> logoutCalls (login e w access refresh mail fname lname) = logoutCalls w
    \<and> refreshCalls (login e w access refresh mail fname lname) = refreshCalls w
    \<and> cookies (login e w access refresh mail fname lname) ''accessToken'' = Some access
    \<and> (cookies v ''accessToken'' = Some access \<and> access \<noteq> []
         \<and> truthy (cookies v ''refreshToken'') \<and> truthy (cookies v ''email'')
       \<longrightarrow> role (session (checkAuthStatus e v)) = Some ''user''
         \<and> \<not> isAdmin (session (checkAuthStatus e v))
         \<and> isAuthenticated (session (checkAuthStatus e v))
         \<and> accessToken (session (checkAuthStatus e v)) = Some access
         \<and> logoutCalls (checkAuthStatus e v) = logoutCalls v
         \<and> refreshCalls (checkAuthStatus e v) = refreshCalls v
         \<and> cookies (checkAuthStatus e v) = cookies v)"
  using assms
  by (simp add: login_def checkAuthStatus_def get_me_def set_role_def truthy_def Let_def)

theorem role_fetch_failure_defaults_to_user_witness:
  "me_api sample_env 0 ''tok.stale'' = MeFailed (Some 500)
   \<and> \<not> unauthorized (Some 500)
   \<and> role (session (login sample_env signed_out ''tok.stale'' ''refresh.ok'' ''a@b.c''
        ''A'' ''B'')) = Some ''user''
   \<and> isAuthenticated (session (login sample_env signed_out ''tok.stale'' ''refresh.ok''
        ''a@b.c'' ''A'' ''B''))
   \<and> role (session (checkAuthStatus sample_env (returning ''tok.stale'' ''refresh.ok'')))
       = Some ''user''
   \<and> \<not> isAdmin (session (checkAuthStatus sample_env (returning ''tok.stale'' ''refresh.ok'')))
   \<and> isAuthenticated (session (checkAuthStatus sample_env
        (returning ''tok.stale'' ''refresh.ok'')))"
  using role_fetch_failure_defaults_to_user [where e = sample_env and access = "''tok.stale''"
      and status = "Some 500" and w = signed_out and refresh = "''refresh.ok''"
      and mail = "''a@b.c''" and fname = "''A''" and lname = "''B''"
      and v = "returning ''tok.stale'' ''refresh.ok''"]
  by (simp add: sample_env_def unauthorized_def returning_def signed_in_def truthy_def)

end
